theory Spec2Isabelle
  imports Main "HOL-Library.Multiset"
begin

section \<open>Values exchanged between client, service and database\<close>

text \<open>
  Request bodies are JSON documents, parsed by \<^verbatim>\<open>express.json()\<close>. Numbers are taken at
  the integers; a string is a list of code units below 256.
\<close>

datatype json =
    JNull
  | JBool bool
  | JNum int
  | JStr string
  | JArr "json list"
  | JObj "(string \<times> json) list"

text \<open>JavaScript truthiness, as \<^verbatim>\<open>!name\<close> tests it. \<^verbatim>\<open>undefined\<close> is handled where
  the property is read.\<close>

fun truthy :: "json \<Rightarrow> bool" where
  "truthy JNull = False"
| "truthy (JBool b) = b"
| "truthy (JNum n) = (n \<noteq> 0)"
| "truthy (JStr s) = (s \<noteq> [])"
| "truthy (JArr xs) = True"
| "truthy (JObj fs) = True"

text \<open>\<^verbatim>\<open>Record = {id, name, created_at}\<close>: one row of the table \<^verbatim>\<open>data\<close>.\<close>

record row =
  row_id :: int
  row_name :: json
  created_at :: nat

text \<open>The \<^verbatim>\<open>error\<close> object of a database reply; the handlers read only its
  \<^verbatim>\<open>message\<close>.\<close>

record db_error =
  err_message :: string

text \<open>
  What \<^verbatim>\<open>await supabase.from("data")...\<close> gives: the promise resolves to
  \<^verbatim>\<open>{ data, error }\<close> (each possibly \<^verbatim>\<open>null\<close>), or it rejects and the \<^verbatim>\<open>await\<close>
  throws an exception with a message.
\<close>

datatype db_reply =
    Reply "row list option" "db_error option"
  | Thrown string

text \<open>The five calls the service issues, in the order of the handlers:
  \<^verbatim>\<open>select("count", { count: "exact", head: true })\<close>,
  \<^verbatim>\<open>select("*").order("id", { ascending: true })\<close>,
  \<^verbatim>\<open>insert([{ name }]).select()\<close>,
  \<^verbatim>\<open>update({ name }).eq("id", id).select()\<close> and
  \<^verbatim>\<open>delete().eq("id", id)\<close>.\<close>

datatype query =
    SelectCountHead
  | SelectAllOrderById
  | Insert json
  | Update json int
  | Delete int

text \<open>The \<^verbatim>\<open>data\<close> field of a response body: \<^verbatim>\<open>null\<close>, an array of rows or one row.\<close>

datatype payload = Null | Rows "row list" | Item row

text \<open>
  An HTTP response: the status code and the JSON body \<^verbatim>\<open>{ status, message, data }\<close>.
  A field that is \<^verbatim>\<open>undefined\<close> is left out by \<^verbatim>\<open>res.json\<close>; it is \<open>None\<close> here.
\<close>

record response =
  code :: nat
  status :: string
  message :: "string option"
  payload :: "payload option"

text \<open>\<^verbatim>\<open>req.params.id\<close> and \<^verbatim>\<open>req.body\<close>. The path parameter is handed to the database
  client unread, so it is taken at the key type of the table. Express 5 leaves
  \<^verbatim>\<open>req.body\<close> undefined when no JSON body was parsed: \<open>body = None\<close>.\<close>

record request =
  params_id :: int
  body :: "json option"

section \<open>The Data Service (BACKEND/src/index.js)\<close>

text \<open>
  A handler either answers at once, or issues one database call and answers from its
  reply.
\<close>

datatype handler =
    Respond response
  | Call query "db_reply \<Rightarrow> response"

definition run :: "(query \<Rightarrow> 'db \<Rightarrow> db_reply \<times> 'db) \<Rightarrow> handler \<Rightarrow> 'db \<Rightarrow> response \<times> 'db" where
  "run client h db =
     (case h of
        Respond r \<Rightarrow> (r, db)
      | Call q k \<Rightarrow> (case client q db of (reply, db') \<Rightarrow> (k reply, db')))"

text \<open>\<^verbatim>\<open>res.json({ status: "ok", message: m })\<close>\<close>

definition ok_message :: "string \<Rightarrow> response" where
  "ok_message m = \<lparr>code = 200, status = ''ok'', message = Some m, payload = None\<rparr>"

text \<open>\<^verbatim>\<open>res.json({ status: "ok", data: d })\<close>\<close>

definition ok_data :: "payload option \<Rightarrow> response" where
  "ok_data d = \<lparr>code = 200, status = ''ok'', message = None, payload = d\<rparr>"

text \<open>\<^verbatim>\<open>res.status(c).json({ status: "error", message: m })\<close>\<close>

definition error_response :: "nat \<Rightarrow> string \<Rightarrow> response" where
  "error_response c m = \<lparr>code = c, status = ''error'', message = Some m, payload = None\<rparr>"

text \<open>
  \<^verbatim>\<open>const { name } = req.body\<close>: destructuring \<^verbatim>\<open>undefined\<close> or \<^verbatim>\<open>null\<close> throws a
  TypeError (the text is that of Node's engine); an object gives the property, where the last of
  several equal keys counts, or \<^verbatim>\<open>undefined\<close> (\<open>None\<close>); an array or a primitive has no
  such property.
\<close>

fun destructure_name :: "json option \<Rightarrow> string + json option" where
  "destructure_name None =
     Inl ''Cannot destructure property 'name' of 'req.body' as it is undefined.''"
| "destructure_name (Some JNull) =
     Inl ''Cannot destructure property 'name' of 'req.body' as it is null.''"
| "destructure_name (Some (JObj fs)) = Inr (map_of (rev fs) ''name'')"
| "destructure_name (Some v) = Inr None"

text \<open>\<^verbatim>\<open>data[0]\<close>: indexing \<^verbatim>\<open>null\<close> throws, the first element of an empty array is
  \<^verbatim>\<open>undefined\<close>.\<close>

fun first_row :: "row list option \<Rightarrow> string + payload option" where
  "first_row None = Inl ''Cannot read properties of null (reading '0')''"
| "first_row (Some []) = Inr None"
| "first_row (Some (r # rs)) = Inr (Some (Item r))"

text \<open>The tail shared by create and update: the error branch, then
  \<^verbatim>\<open>res.json({ status: "ok", data: data[0] })\<close>, inside \<^verbatim>\<open>try\<close>.\<close>

definition answer_first :: "db_reply \<Rightarrow> response" where
  "answer_first reply =
     (case reply of
        Thrown m \<Rightarrow> error_response 500 m
      | Reply d error \<Rightarrow>
          (case error of
             Some e \<Rightarrow> error_response 500 (err_message e)
           | None \<Rightarrow>
               (case first_row d of
                  Inl m \<Rightarrow> error_response 500 m
                | Inr x \<Rightarrow> ok_data x)))"

text \<open>\<^verbatim>\<open>app.get("/", ...)\<close>\<close>

definition get_root :: handler where
  "get_root = Respond (ok_message ''Backend running'')"

text \<open>\<^verbatim>\<open>app.get("/api/health", ...)\<close>\<close>

definition get_health :: handler where
  "get_health =
     Call SelectCountHead (\<lambda>reply.
       case reply of
         Thrown m \<Rightarrow> ok_message ''Backend running''
       | Reply d error \<Rightarrow>
           (case error of
              Some e \<Rightarrow> ok_message (''Backend connected (DB: '' @ err_message e @ '')'')
            | None \<Rightarrow> ok_message ''Backend and Supabase connected''))"

text \<open>\<^verbatim>\<open>app.get("/api/data", ...)\<close>\<close>

definition get_data :: handler where
  "get_data =
     Call SelectAllOrderById (\<lambda>reply.
       case reply of
         Thrown m \<Rightarrow> error_response 500 m
       | Reply d error \<Rightarrow>
           (case error of
              Some e \<Rightarrow> error_response 500 (err_message e)
            | None \<Rightarrow> ok_data (Some (case d of None \<Rightarrow> Null | Some rs \<Rightarrow> Rows rs))))"

text \<open>\<^verbatim>\<open>app.post("/api/data", ...)\<close>\<close>

definition post_data :: "request \<Rightarrow> handler" where
  "post_data req =
     (case destructure_name (body req) of
        Inl m \<Rightarrow> Respond (error_response 500 m)
      | Inr None \<Rightarrow> Respond (error_response 400 ''Name is required'')
      | Inr (Some name) \<Rightarrow>
          if \<not> truthy name then Respond (error_response 400 ''Name is required'')
          else Call (Insert name) answer_first)"

text \<open>\<^verbatim>\<open>app.put("/api/data/:id", ...)\<close>\<close>

definition put_data :: "request \<Rightarrow> handler" where
  "put_data req =
     (case destructure_name (body req) of
        Inl m \<Rightarrow> Respond (error_response 500 m)
      | Inr None \<Rightarrow> Respond (error_response 400 ''Name is required'')
      | Inr (Some name) \<Rightarrow>
          if \<not> truthy name then Respond (error_response 400 ''Name is required'')
          else Call (Update name (params_id req)) answer_first)"

text \<open>\<^verbatim>\<open>app.delete("/api/data/:id", ...)\<close>\<close>

definition delete_data :: "request \<Rightarrow> handler" where
  "delete_data req =
     Call (Delete (params_id req)) (\<lambda>reply.
       case reply of
         Thrown m \<Rightarrow> error_response 500 m
       | Reply d error \<Rightarrow>
           (case error of
              Some e \<Rightarrow> error_response 500 (err_message e)
            | None \<Rightarrow> ok_message ''Deleted successfully''))"

text \<open>The routes registered on \<^verbatim>\<open>app\<close>; \<open>None\<close> where no route matches. The create
  route has no path parameter, and its handler reads none.\<close>

datatype verb = GET | POST | PUT | DELETE

datatype endpoint = Root | ApiHealth | ApiData | ApiDataId int

fun app :: "verb \<Rightarrow> endpoint \<Rightarrow> json option \<Rightarrow> handler option" where
  "app GET Root b = Some get_root"
| "app GET ApiHealth b = Some get_health"
| "app GET ApiData b = Some get_data"
| "app POST ApiData b = Some (post_data \<lparr>params_id = 0, body = b\<rparr>)"
| "app PUT (ApiDataId i) b = Some (put_data \<lparr>params_id = i, body = b\<rparr>)"
| "app DELETE (ApiDataId i) b = Some (delete_data \<lparr>params_id = i, body = b\<rparr>)"
| "app m p b = None"

section \<open>The database behind the client\<close>

text \<open>
  Modelled from the spec: the database client \<^verbatim>\<open>supabase\<close> (BACKEND/src/config/supabase.js)
  and the hosted table \<^verbatim>\<open>data\<close> behind it are not among the sources. The spec gives a
  flat collection of records; \<^verbatim>\<open>id\<close> and \<^verbatim>\<open>created_at\<close> are assigned by the server at
  insertion, \<^verbatim>\<open>id\<close> unique and previously unseen; an update writes \<^verbatim>\<open>name\<close> only;
  a list is ordered by \<^verbatim>\<open>id\<close> ascending; update and delete of an absent \<^verbatim>\<open>id\<close> succeed
  and change nothing. The state is the table in storage order, the next key of the
  sequence and a clock that advances with every call.
\<close>

record database =
  table :: "row list"
  next_id :: int
  clock :: nat

fun supabase :: "query \<Rightarrow> database \<Rightarrow> db_reply \<times> database" where
  "supabase SelectCountHead db = (Reply None None, db\<lparr>clock := Suc (clock db)\<rparr>)"
| "supabase SelectAllOrderById db =
     (Reply (Some (sort_key row_id (table db))) None, db\<lparr>clock := Suc (clock db)\<rparr>)"
| "supabase (Insert v) db =
     (let r = \<lparr>row_id = next_id db, row_name = v, created_at = clock db\<rparr>
      in (Reply (Some [r]) None,
          db\<lparr>table := table db @ [r], next_id := next_id db + 1, clock := Suc (clock db)\<rparr>))"
| "supabase (Update v i) db =
     (let t = map (\<lambda>r. if row_id r = i then r\<lparr>row_name := v\<rparr> else r) (table db)
      in (Reply (Some (filter (\<lambda>r. row_id r = i) t)) None,
          db\<lparr>table := t, clock := Suc (clock db)\<rparr>))"
| "supabase (Delete i) db =
     (Reply None None,
      db\<lparr>table := filter (\<lambda>r. row_id r \<noteq> i) (table db), clock := Suc (clock db)\<rparr>)"

text \<open>A database that cannot be reached: every call resolves with an error.\<close>

definition refusing :: "query \<Rightarrow> database \<Rightarrow> db_reply \<times> database" where
  "refusing q db = (Reply None (Some \<lparr>err_message = ''connection refused''\<rparr>), db)"

text \<open>The keys in the table are distinct and all below the next key of the sequence.\<close>

definition consistent :: "database \<Rightarrow> bool" where
  "consistent db =
     (distinct (map row_id (table db)) \<and> list_all (\<lambda>r. row_id r < next_id db) (table db))"

definition empty_database :: database where
  "empty_database = \<lparr>table = [], next_id = 1, clock = 0\<rparr>"

section \<open>The Client Application (FRONTEND/src/config/api.js, FRONTEND/src/App.jsx)\<close>

text \<open>
  A server answers a request with a response, or not at all (\<open>None\<close>: the network
  failed and \<^verbatim>\<open>fetch\<close> rejects); it carries its own state \<open>'w\<close> from call to call.
\<close>

type_synonym 'w server = "verb \<Rightarrow> endpoint \<Rightarrow> json option \<Rightarrow> 'w \<Rightarrow> response option \<times> 'w"

datatype failure = NetworkError | ApiError nat

datatype outcome = Resolved response | Rejected failure

text \<open>\<^verbatim>\<open>api.fetch\<close>: throws \<^verbatim>\<open>API Error: <status>\<close> unless \<^verbatim>\<open>response.ok\<close> (a status
  from 200 to 299), and gives the parsed body otherwise.\<close>

definition api_fetch :: "'w server \<Rightarrow> verb \<Rightarrow> endpoint \<Rightarrow> json option \<Rightarrow> 'w \<Rightarrow> outcome \<times> 'w" where
  "api_fetch server m p b w =
     (case server m p b w of
        (None, w') \<Rightarrow> (Rejected NetworkError, w')
      | (Some r, w') \<Rightarrow>
          (if \<not> (200 \<le> code r \<and> code r \<le> 299) then (Rejected (ApiError (code r)), w')
           else (Resolved r, w')))"

text \<open>The Data Service seen from the client: the route's handler run against the
  database; a request that matches no route is answered 404.\<close>

definition backend :: "database server" where
  "backend m p b db =
     (case app m p b of
        None \<Rightarrow> (Some \<lparr>code = 404, status = [], message = None, payload = None\<rparr>, db)
      | Some h \<Rightarrow> (case run supabase h db of (r, db') \<Rightarrow> (Some r, db')))"

text \<open>\<^verbatim>\<open>actionLoading\<close>: \<^verbatim>\<open>null\<close>, \<^verbatim>\<open>'add'\<close> or the id of a row.\<close>

datatype marker = Adding | OnRow int

text \<open>The component's state, one field for each \<^verbatim>\<open>useState\<close>.\<close>

record ui =
  backendStatus :: string
  loading :: bool
  data :: payload
  dataLoading :: bool
  showData :: bool
  editingId :: "int option"
  editValue :: string
  showAddForm :: bool
  newName :: string
  actionLoading :: "marker option"

text \<open>What a handler does, in the order in which it does it: state setters, dialogs,
  log lines and requests.\<close>

datatype event =
    SetBackendStatus string
  | SetLoading bool
  | SetData payload
  | SetDataLoading bool
  | SetShowData bool
  | SetEditingId "int option"
  | SetEditValue string
  | SetShowAddForm bool
  | SetNewName string
  | SetActionLoading "marker option"
  | Alert string
  | ConsoleError string
  | Confirm string
  | Api verb endpoint "json option"

fun apply_event :: "event \<Rightarrow> ui \<Rightarrow> ui" where
  "apply_event (SetBackendStatus x) st = st\<lparr>backendStatus := x\<rparr>"
| "apply_event (SetLoading x) st = st\<lparr>loading := x\<rparr>"
| "apply_event (SetData x) st = st\<lparr>data := x\<rparr>"
| "apply_event (SetDataLoading x) st = st\<lparr>dataLoading := x\<rparr>"
| "apply_event (SetShowData x) st = st\<lparr>showData := x\<rparr>"
| "apply_event (SetEditingId x) st = st\<lparr>editingId := x\<rparr>"
| "apply_event (SetEditValue x) st = st\<lparr>editValue := x\<rparr>"
| "apply_event (SetShowAddForm x) st = st\<lparr>showAddForm := x\<rparr>"
| "apply_event (SetNewName x) st = st\<lparr>newName := x\<rparr>"
| "apply_event (SetActionLoading x) st = st\<lparr>actionLoading := x\<rparr>"
| "apply_event e st = st"

text \<open>The state after the setters of a trace have taken effect.\<close>

definition settle :: "ui \<Rightarrow> event list \<Rightarrow> ui" where
  "settle st tr = foldl (\<lambda>s e. apply_event e s) st tr"

text \<open>\<^verbatim>\<open>String.prototype.trim\<close> on code units below 256: tab, line feed, vertical tab,
  form feed, carriage return, space and no-break space are white space.\<close>

definition white_space :: "char \<Rightarrow> bool" where
  "white_space c =
     (c \<in> set [CHR 0x09, CHR 0x0A, CHR 0x0B, CHR 0x0C, CHR 0x0D, CHR 0x20, CHR 0xA0])"

definition trim :: "string \<Rightarrow> string" where
  "trim s = rev (dropWhile white_space (rev (dropWhile white_space s)))"

text \<open>\<^verbatim>\<open>response.data || []\<close>\<close>

fun data_or_empty :: "payload option \<Rightarrow> payload" where
  "data_or_empty None = Rows []"
| "data_or_empty (Some Null) = Rows []"
| "data_or_empty (Some d) = d"

text \<open>\<^verbatim>\<open>response.message || 'Connected!'\<close>\<close>

fun message_or_connected :: "string option \<Rightarrow> string" where
  "message_or_connected None = ''Connected!''"
| "message_or_connected (Some m) = (if m = [] then ''Connected!'' else m)"

definition checkBackendConnection :: "'w server \<Rightarrow> 'w \<Rightarrow> event list \<times> 'w" where
  "checkBackendConnection server w =
     (case api_fetch server GET ApiHealth None w of
        (Resolved r, w') \<Rightarrow>
          ([Api GET ApiHealth None, SetBackendStatus (message_or_connected (message r)),
            SetLoading False], w')
      | (Rejected f, w') \<Rightarrow>
          ([Api GET ApiHealth None, SetBackendStatus ''Failed to connect to backend'',
            ConsoleError ''Backend connection error:'', SetLoading False], w'))"

definition fetchData :: "'w server \<Rightarrow> 'w \<Rightarrow> event list \<times> 'w" where
  "fetchData server w =
     (case api_fetch server GET ApiData None w of
        (Resolved r, w') \<Rightarrow>
          ([SetDataLoading True, Api GET ApiData None,
            SetData (data_or_empty (payload r)), SetShowData True,
            SetDataLoading False], w')
      | (Rejected f, w') \<Rightarrow>
          ([SetDataLoading True, Api GET ApiData None,
            ConsoleError ''Error fetching data:'', Alert ''Failed to fetch data from database'',
            SetDataLoading False], w'))"

definition handleAdd :: "'w server \<Rightarrow> ui \<Rightarrow> 'w \<Rightarrow> event list \<times> 'w" where
  "handleAdd server st w =
     (if trim (newName st) = [] then ([Alert ''Please enter a name''], w)
      else
        (case api_fetch server POST ApiData (Some (JObj [(''name'', JStr (newName st))])) w of
           (Resolved r, w1) \<Rightarrow>
             (case fetchData server w1 of
                (reload, w2) \<Rightarrow>
                  ([SetActionLoading (Some Adding),
                    Api POST ApiData (Some (JObj [(''name'', JStr (newName st))])),
                    SetNewName [], SetShowAddForm False]
                   @ reload @ [SetActionLoading None], w2))
         | (Rejected f, w1) \<Rightarrow>
             ([SetActionLoading (Some Adding),
               Api POST ApiData (Some (JObj [(''name'', JStr (newName st))])),
               ConsoleError ''Error adding data:'', Alert ''Failed to add data'',
               SetActionLoading None], w1)))"

definition handleSave :: "'w server \<Rightarrow> ui \<Rightarrow> int \<Rightarrow> 'w \<Rightarrow> event list \<times> 'w" where
  "handleSave server st i w =
     (if trim (editValue st) = [] then ([Alert ''Please enter a name''], w)
      else
        (case api_fetch server PUT (ApiDataId i) (Some (JObj [(''name'', JStr (editValue st))])) w of
           (Resolved r, w1) \<Rightarrow>
             (case fetchData server w1 of
                (reload, w2) \<Rightarrow>
                  ([SetActionLoading (Some (OnRow i)),
                    Api PUT (ApiDataId i) (Some (JObj [(''name'', JStr (editValue st))])),
                    SetEditingId None, SetEditValue []]
                   @ reload @ [SetActionLoading None], w2))
         | (Rejected f, w1) \<Rightarrow>
             ([SetActionLoading (Some (OnRow i)),
               Api PUT (ApiDataId i) (Some (JObj [(''name'', JStr (editValue st))])),
               ConsoleError ''Error updating data:'', Alert ''Failed to update data'',
               SetActionLoading None], w1)))"

definition handleCancel :: "event list" where
  "handleCancel = [SetEditingId None, SetEditValue []]"

text \<open>\<open>confirmed\<close> is the user's answer to the \<^verbatim>\<open>confirm\<close> dialog.\<close>

definition handleDelete :: "'w server \<Rightarrow> bool \<Rightarrow> int \<Rightarrow> 'w \<Rightarrow> event list \<times> 'w" where
  "handleDelete server confirmed i w =
     (if \<not> confirmed then ([Confirm ''Are you sure you want to delete this item?''], w)
      else
        (case api_fetch server DELETE (ApiDataId i) None w of
           (Resolved r, w1) \<Rightarrow>
             (case fetchData server w1 of
                (reload, w2) \<Rightarrow>
                  ([Confirm ''Are you sure you want to delete this item?'',
                    SetActionLoading (Some (OnRow i)), Api DELETE (ApiDataId i) None]
                   @ reload @ [SetActionLoading None], w2))
         | (Rejected f, w1) \<Rightarrow>
             ([Confirm ''Are you sure you want to delete this item?'',
               SetActionLoading (Some (OnRow i)), Api DELETE (ApiDataId i) None,
               ConsoleError ''Error deleting data:'', Alert ''Failed to delete data'',
               SetActionLoading None], w1)))"

text \<open>
  The ordering the specification asks of a handler's trace: the transient state (the
  edit-in-progress id, the edit text, the add form's text and visibility) is cleared
  only once the reload has finished, that is after the \<^verbatim>\<open>finally\<close> of \<^verbatim>\<open>fetchData\<close>.
\<close>

fun is_clear :: "event \<Rightarrow> bool" where
  "is_clear (SetEditingId x) = (x = None)"
| "is_clear (SetEditValue x) = (x = [])"
| "is_clear (SetNewName x) = (x = [])"
| "is_clear (SetShowAddForm x) = (\<not> x)"
| "is_clear e = False"

definition reload_finished :: "event \<Rightarrow> bool" where
  "reload_finished e = (e = SetDataLoading False)"

definition clears_only_after_reload :: "event list \<Rightarrow> bool" where
  "clears_only_after_reload tr =
     (\<not> list_ex is_clear (takeWhile (\<lambda>e. \<not> reload_finished e) tr))"

section \<open>Running a handler\<close>

lemma run_Call: "run client (Call q k) db = (k (fst (client q db)), snd (client q db))"
  by (simp add: run_def split: prod.splits)

lemma run_Respond: "run client (Respond r) db = (r, db)"
  by (simp add: run_def)

section \<open>Validation of the name\<close>

text \<open>
  A create or update whose body is an object without \<^verbatim>\<open>name\<close>, or with the empty
  string as \<^verbatim>\<open>name\<close>, is answered HTTP 400 with status "error" by a handler that issues
  no database call; run against any database client, it leaves the database as it was.
\<close>

lemma missing_name_rejected:
  assumes "body req = Some (JObj fs)"
    and "''name'' \<notin> fst ` set fs \<or> map_of (rev fs) ''name'' = Some (JStr [])"
  shows "post_data req =
           Respond \<lparr>code = 400, status = ''error'', message = Some ''Name is required'',
                    payload = None\<rparr> \<and>
         put_data req =
           Respond \<lparr>code = 400, status = ''error'', message = Some ''Name is required'',
                    payload = None\<rparr> \<and>
         snd (run client (post_data req) db) = db \<and>
         snd (run client (put_data req) db) = db"
proof -
  from assms(2)
  have "map_of (rev fs) ''name'' = None \<or> map_of (rev fs) ''name'' = Some (JStr [])"
    by (auto simp: map_of_eq_None_iff)
  with assms(1) show ?thesis
    by (auto simp: post_data_def put_data_def error_response_def run_Respond)
qed

lemma missing_name_rejected_example:
  "body \<lparr>params_id = 1, body = Some (JObj [(''id'', JNum 5), (''name'', JStr [])])\<rparr> =
     Some (JObj [(''id'', JNum 5), (''name'', JStr [])]) \<and>
   map_of (rev [(''id'', JNum 5), (''name'', JStr [])]) ''name'' = Some (JStr []) \<and>
   post_data \<lparr>params_id = 1, body = Some (JObj [(''id'', JNum 5), (''name'', JStr [])])\<rparr> =
     Respond \<lparr>code = 400, status = ''error'', message = Some ''Name is required'',
              payload = None\<rparr> \<and>
   snd (run supabase
         (put_data \<lparr>params_id = 1, body = Some (JObj [(''id'', JNum 5), (''name'', JStr [])])\<rparr>)
         empty_database) = empty_database"
proof -
  have h1: "body \<lparr>params_id = 1, body = Some (JObj [(''id'', JNum 5), (''name'', JStr [])])\<rparr> =
     Some (JObj [(''id'', JNum 5), (''name'', JStr [])])"
    by simp
  have h2: "''name'' \<notin> fst ` set [(''id'', JNum 5), (''name'', JStr [])] \<or>
    map_of (rev [(''id'', JNum 5), (''name'', JStr [])]) ''name'' = Some (JStr [])"
    by simp
  have h3: "map_of (rev [(''id'', JNum 5), (''name'', JStr [])]) ''name'' = Some (JStr [])"
    by simp
  show ?thesis
    using h1 h3 missing_name_rejected [OF h1 h2, of supabase empty_database] by blast
qed

text \<open>
  C2. A request that arrives without a parsed body has no \<^verbatim>\<open>name\<close> either, but it never
  reaches the test of the name: the destructuring of \<^verbatim>\<open>req.body\<close> throws, and the
  \<^verbatim>\<open>catch\<close> of the handler answers HTTP 500 with the TypeError's text, on create and
  on update, where the rule for a missing name asks for HTTP 400 and "Name is required".
  No database call is issued.
\<close>

theorem no_body_answers_500:
  "post_data \<lparr>params_id = 0, body = None\<rparr> =
     Respond \<lparr>code = 500, status = ''error'',
       message = Some ''Cannot destructure property 'name' of 'req.body' as it is undefined.'',
       payload = None\<rparr> \<and>
   put_data \<lparr>params_id = 1, body = None\<rparr> =
     Respond \<lparr>code = 500, status = ''error'',
       message = Some ''Cannot destructure property 'name' of 'req.body' as it is undefined.'',
       payload = None\<rparr> \<and>
   app POST ApiData None = Some (post_data \<lparr>params_id = 0, body = None\<rparr>) \<and>
   app PUT (ApiDataId 1) None = Some (put_data \<lparr>params_id = 1, body = None\<rparr>) \<and>
   code (fst (run supabase (post_data \<lparr>params_id = 0, body = None\<rparr>) empty_database)) = 500 \<and>
   snd (run supabase (post_data \<lparr>params_id = 0, body = None\<rparr>) empty_database) =
     empty_database"
  by (simp add: post_data_def put_data_def error_response_def run_Respond)

text \<open>
  C9. The check is truthiness, not a trimmed non-emptiness check: a \<^verbatim>\<open>name\<close> that is a
  non-empty string of white space only (its trimmed form is empty) passes on create
  and on update, the string is handed to the database as it is, and the create stores a
  row with that name.
\<close>

theorem whitespace_name_accepted:
  assumes "s \<noteq> []" and "trim s = []"
    and "body req = Some (JObj fs)"
    and "map_of (rev fs) ''name'' = Some (JStr s)"
  shows "post_data req = Call (Insert (JStr s)) answer_first \<and>
         put_data req = Call (Update (JStr s) (params_id req)) answer_first \<and>
         table (snd (run supabase (post_data req) db)) =
           table db @ [\<lparr>row_id = next_id db, row_name = JStr s, created_at = clock db\<rparr>]"
  using assms
  by (simp add: post_data_def put_data_def run_Call Let_def)

theorem whitespace_name_accepted_witness:
  "'' '' \<noteq> [] \<and> trim '' '' = [] \<and>
   body \<lparr>params_id = 1, body = Some (JObj [(''name'', JStr '' '')])\<rparr> =
     Some (JObj [(''name'', JStr '' '')]) \<and>
   map_of (rev [(''name'', JStr '' '')]) ''name'' = Some (JStr '' '') \<and>
   post_data \<lparr>params_id = 1, body = Some (JObj [(''name'', JStr '' '')])\<rparr> =
     Call (Insert (JStr '' '')) answer_first \<and>
   put_data \<lparr>params_id = 1, body = Some (JObj [(''name'', JStr '' '')])\<rparr> =
     Call (Update (JStr '' '') 1) answer_first \<and>
   table (snd (run supabase
                (post_data \<lparr>params_id = 1, body = Some (JObj [(''name'', JStr '' '')])\<rparr>)
                empty_database)) =
     [\<lparr>row_id = 1, row_name = JStr '' '', created_at = 0\<rparr>]"
proof -
  have h1: "'' '' \<noteq> []" by simp
  have h2: "trim '' '' = []" by (simp add: trim_def white_space_def)
  have h3: "body \<lparr>params_id = 1, body = Some (JObj [(''name'', JStr '' '')])\<rparr> =
     Some (JObj [(''name'', JStr '' '')])"
    by simp
  have h4: "map_of (rev [(''name'', JStr '' '')]) ''name'' = Some (JStr '' '')" by simp
  note t = whitespace_name_accepted [OF h1 h2 h3 h4, of empty_database]
  have e: "table empty_database @
      [\<lparr>row_id = next_id empty_database, row_name = JStr '' '',
        created_at = clock empty_database\<rparr>] =
     [\<lparr>row_id = 1, row_name = JStr '' '', created_at = 0\<rparr>]"
    by (simp add: empty_database_def)
  have p: "params_id \<lparr>params_id = 1, body = Some (JObj [(''name'', JStr '' '')])\<rparr> = 1"
    by simp
  show ?thesis
    using h1 h2 h3 h4 t unfolding e p by blast
qed

section \<open>Health check\<close>

text \<open>
  C3. Whatever the database call does (it resolves without error, resolves with an
  error, or throws), the health check answers HTTP 200 with status "ok" and no data;
  a returned error shows only inside the message text, a thrown one not at all.
\<close>

theorem health_always_ok:
  "code (fst (run client get_health db)) = 200 \<and>
   status (fst (run client get_health db)) = ''ok'' \<and>
   payload (fst (run client get_health db)) = None \<and>
   message (fst (run client get_health db)) =
     (case fst (client SelectCountHead db) of
        Thrown m \<Rightarrow> Some ''Backend running''
      | Reply d None \<Rightarrow> Some ''Backend and Supabase connected''
      | Reply d (Some e) \<Rightarrow> Some (''Backend connected (DB: '' @ err_message e @ '')''))"
  by (simp add: get_health_def run_Call ok_message_def split: db_reply.splits option.splits)

section \<open>Database errors\<close>

text \<open>
  C7. When the database call of a list, create, update or delete request resolves with
  an error, the service answers HTTP 500 with status "error" and the error's message
  text, unchanged, as message.
\<close>

theorem database_error_is_500:
  assumes "h \<in> {get_data, post_data req, put_data req, delete_data req}"
    and "h = Call q k"
    and "fst (client q db) = Reply d (Some e)"
  shows "fst (run client h db) =
           \<lparr>code = 500, status = ''error'', message = Some (err_message e), payload = None\<rparr>"
  using assms
  by (auto simp: get_data_def post_data_def put_data_def delete_data_def answer_first_def
      run_Call error_response_def split: sum.splits option.splits if_splits)

theorem database_error_is_500_witness:
  "post_data \<lparr>params_id = 1, body = Some (JObj [(''name'', JStr ''Widget'')])\<rparr> \<in>
     {get_data,
      post_data \<lparr>params_id = 1, body = Some (JObj [(''name'', JStr ''Widget'')])\<rparr>,
      put_data \<lparr>params_id = 1, body = Some (JObj [(''name'', JStr ''Widget'')])\<rparr>,
      delete_data \<lparr>params_id = 1, body = Some (JObj [(''name'', JStr ''Widget'')])\<rparr>} \<and>
   post_data \<lparr>params_id = 1, body = Some (JObj [(''name'', JStr ''Widget'')])\<rparr> =
     Call (Insert (JStr ''Widget'')) answer_first \<and>
   fst (refusing (Insert (JStr ''Widget'')) empty_database) =
     Reply None (Some \<lparr>err_message = ''connection refused''\<rparr>) \<and>
   fst (run refusing
          (post_data \<lparr>params_id = 1, body = Some (JObj [(''name'', JStr ''Widget'')])\<rparr>)
          empty_database) =
     \<lparr>code = 500, status = ''error'', message = Some ''connection refused'', payload = None\<rparr>"
proof -
  have h1: "post_data \<lparr>params_id = 1, body = Some (JObj [(''name'', JStr ''Widget'')])\<rparr> \<in>
     {get_data,
      post_data \<lparr>params_id = 1, body = Some (JObj [(''name'', JStr ''Widget'')])\<rparr>,
      put_data \<lparr>params_id = 1, body = Some (JObj [(''name'', JStr ''Widget'')])\<rparr>,
      delete_data \<lparr>params_id = 1, body = Some (JObj [(''name'', JStr ''Widget'')])\<rparr>}"
    by simp
  have h2: "post_data \<lparr>params_id = 1, body = Some (JObj [(''name'', JStr ''Widget'')])\<rparr> =
     Call (Insert (JStr ''Widget'')) answer_first"
    by (simp add: post_data_def)
  have h3: "fst (refusing (Insert (JStr ''Widget'')) empty_database) =
     Reply None (Some \<lparr>err_message = ''connection refused''\<rparr>)"
    by (simp add: refusing_def)
  have e: "err_message \<lparr>err_message = ''connection refused''\<rparr> = ''connection refused''"
    by simp
  note t = database_error_is_500 [where client = refusing and db = empty_database, OF h1 h2 h3]
  show ?thesis
    using h1 h2 h3 t unfolding e by blast
qed

section \<open>Behaviour on the collection\<close>

lemma filter_absent: "i \<notin> row_id ` set t \<Longrightarrow> filter (\<lambda>r. row_id r \<noteq> i) t = t"
  by (induction t) auto

lemma filter_none: "i \<notin> row_id ` set t \<Longrightarrow> filter (\<lambda>r. row_id r = i) t = []"
  by (induction t) auto

lemma map_absent:
  "i \<notin> row_id ` set t \<Longrightarrow> map (\<lambda>r. if row_id r = i then r\<lparr>row_name := v\<rparr> else r) t = t"
  by (induction t) auto

text \<open>
  C4. Whatever the storage order of the table, the list request is answered HTTP 200
  with status "ok" and a data array that holds the rows of the table sorted by \<^verbatim>\<open>id\<close>
  ascending.
\<close>

theorem list_sorted_by_id:
  "\<exists>rs. fst (run supabase get_data db) =
           \<lparr>code = 200, status = ''ok'', message = None, payload = Some (Rows rs)\<rparr> \<and>
        sorted (map row_id rs) \<and> mset rs = mset (table db)"
  by (simp add: get_data_def run_Call ok_data_def)

text \<open>
  C5. A delete is answered HTTP 200 with \<^verbatim>\<open>{status:"ok", message:"Deleted successfully"}\<close>,
  and so is the same delete issued again; the second one leaves the table as the first
  left it, and a delete of an \<^verbatim>\<open>id\<close> that is not in the table leaves the table unchanged.
\<close>

theorem delete_twice:
  "fst (run supabase (delete_data req) db) =
     \<lparr>code = 200, status = ''ok'', message = Some ''Deleted successfully'', payload = None\<rparr> \<and>
   fst (run supabase (delete_data req) (snd (run supabase (delete_data req) db))) =
     \<lparr>code = 200, status = ''ok'', message = Some ''Deleted successfully'', payload = None\<rparr> \<and>
   table (snd (run supabase (delete_data req) (snd (run supabase (delete_data req) db)))) =
     table (snd (run supabase (delete_data req) db)) \<and>
   (params_id req \<notin> row_id ` set (table db) \<longrightarrow>
      table (snd (run supabase (delete_data req) db)) = table db)"
  by (simp add: delete_data_def run_Call ok_message_def filter_absent)

theorem delete_twice_witness:
  "params_id \<lparr>params_id = 2, body = None\<rparr> \<notin>
     row_id ` set (table \<lparr>table = [\<lparr>row_id = 1, row_name = JStr ''Widget'', created_at = 0\<rparr>],
                          next_id = 3, clock = 4\<rparr>) \<and>
   table (snd (run supabase (delete_data \<lparr>params_id = 2, body = None\<rparr>)
                \<lparr>table = [\<lparr>row_id = 1, row_name = JStr ''Widget'', created_at = 0\<rparr>],
                 next_id = 3, clock = 4\<rparr>)) =
     [\<lparr>row_id = 1, row_name = JStr ''Widget'', created_at = 0\<rparr>]"
proof -
  have h: "params_id \<lparr>params_id = 2, body = None\<rparr> \<notin>
     row_id ` set (table \<lparr>table = [\<lparr>row_id = 1, row_name = JStr ''Widget'', created_at = 0\<rparr>],
                          next_id = 3, clock = 4\<rparr>)"
    by simp
  show ?thesis
    using h delete_twice [of "\<lparr>params_id = 2, body = None\<rparr>"
        "\<lparr>table = [\<lparr>row_id = 1, row_name = JStr ''Widget'', created_at = 0\<rparr>],
          next_id = 3, clock = 4\<rparr>"]
    by simp
qed

text \<open>
  C8. An update with a truthy \<^verbatim>\<open>name\<close> whose \<^verbatim>\<open>id\<close> is not in the table issues the update
  call; the call resolves with an empty result set and no error, and the handler, which
  answers with the first element of the result set, answers HTTP 200 with status "ok"
  and no \<^verbatim>\<open>data\<close> field. The table is unchanged. An update that did change a row is
  answered with the same code and status.
\<close>

theorem update_absent_id:
  assumes "body req = Some (JObj fs)"
    and "map_of (rev fs) ''name'' = Some v"
    and "truthy v"
    and "params_id req \<notin> row_id ` set (table db)"
  shows "put_data req = Call (Update v (params_id req)) answer_first \<and>
         answer_first (Reply (Some []) None) =
           \<lparr>code = 200, status = ''ok'', message = None, payload = None\<rparr> \<and>
         fst (run supabase (put_data req) db) =
           \<lparr>code = 200, status = ''ok'', message = None, payload = None\<rparr> \<and>
         table (snd (run supabase (put_data req) db)) = table db \<and>
         code (answer_first (Reply (Some (r # rs)) None)) = 200 \<and>
         status (answer_first (Reply (Some (r # rs)) None)) = ''ok''"
  using assms
  by (simp add: put_data_def run_Call answer_first_def ok_data_def map_absent filter_none Let_def)

theorem update_absent_id_witness:
  "body \<lparr>params_id = 42, body = Some (JObj [(''name'', JStr ''Gadget'')])\<rparr> =
     Some (JObj [(''name'', JStr ''Gadget'')]) \<and>
   map_of (rev [(''name'', JStr ''Gadget'')]) ''name'' = Some (JStr ''Gadget'') \<and>
   truthy (JStr ''Gadget'') \<and>
   params_id \<lparr>params_id = 42, body = Some (JObj [(''name'', JStr ''Gadget'')])\<rparr> \<notin>
     row_id ` set (table \<lparr>table = [\<lparr>row_id = 1, row_name = JStr ''Widget'', created_at = 0\<rparr>],
                          next_id = 2, clock = 1\<rparr>) \<and>
   fst (run supabase
         (put_data \<lparr>params_id = 42, body = Some (JObj [(''name'', JStr ''Gadget'')])\<rparr>)
         \<lparr>table = [\<lparr>row_id = 1, row_name = JStr ''Widget'', created_at = 0\<rparr>],
          next_id = 2, clock = 1\<rparr>) =
     \<lparr>code = 200, status = ''ok'', message = None, payload = None\<rparr> \<and>
   table (snd (run supabase
         (put_data \<lparr>params_id = 42, body = Some (JObj [(''name'', JStr ''Gadget'')])\<rparr>)
         \<lparr>table = [\<lparr>row_id = 1, row_name = JStr ''Widget'', created_at = 0\<rparr>],
          next_id = 2, clock = 1\<rparr>)) =
     [\<lparr>row_id = 1, row_name = JStr ''Widget'', created_at = 0\<rparr>]"
proof -
  have h1: "body \<lparr>params_id = 42, body = Some (JObj [(''name'', JStr ''Gadget'')])\<rparr> =
     Some (JObj [(''name'', JStr ''Gadget'')])"
    by simp
  have h2: "map_of (rev [(''name'', JStr ''Gadget'')]) ''name'' = Some (JStr ''Gadget'')"
    by simp
  have h3: "truthy (JStr ''Gadget'')" by simp
  have h4: "params_id \<lparr>params_id = 42, body = Some (JObj [(''name'', JStr ''Gadget'')])\<rparr> \<notin>
     row_id ` set (table \<lparr>table = [\<lparr>row_id = 1, row_name = JStr ''Widget'', created_at = 0\<rparr>],
                          next_id = 2, clock = 1\<rparr>)"
    by simp
  note t = update_absent_id [OF h1 h2 h3 h4,
      of "\<lparr>row_id = 1, row_name = JNull, created_at = 0\<rparr>" "[]"]
  have e: "table \<lparr>table = [\<lparr>row_id = 1, row_name = JStr ''Widget'', created_at = 0\<rparr>],
                  next_id = 2, clock = 1\<rparr> =
           [\<lparr>row_id = 1, row_name = JStr ''Widget'', created_at = 0\<rparr>]"
    by simp
  from t have c: "table (snd (run supabase
         (put_data \<lparr>params_id = 42, body = Some (JObj [(''name'', JStr ''Gadget'')])\<rparr>)
         \<lparr>table = [\<lparr>row_id = 1, row_name = JStr ''Widget'', created_at = 0\<rparr>],
          next_id = 2, clock = 1\<rparr>)) =
     [\<lparr>row_id = 1, row_name = JStr ''Widget'', created_at = 0\<rparr>]"
    unfolding e by blast
  show ?thesis
    using h1 h2 h3 h4 t c by blast
qed


text \<open>The model of the database keeps its invariant, from the empty table on.\<close>

lemma consistent_empty: "consistent empty_database"
  by (simp add: consistent_def empty_database_def)

lemma ids_update:
  "map row_id (map (\<lambda>r. if row_id r = i then r\<lparr>row_name := v\<rparr> else r) t) = map row_id t"
  by (induction t) auto

lemma set_update_ids:
  "r \<in> set (map (\<lambda>r. if row_id r = i then r\<lparr>row_name := v\<rparr> else r) t) \<Longrightarrow>
   row_id r \<in> row_id ` set t"
  by (induction t) (auto split: if_splits)

lemma consistent_supabase:
  assumes "consistent db"
  shows "consistent (snd (supabase q db))"
proof (cases q)
  case (Insert v)
  with assms show ?thesis
    by (auto simp: consistent_def Let_def list_all_iff)
next
  case (Update v i)
  from assms have d: "distinct (map row_id (table db))"
    and b: "\<forall>r\<in>set (table db). row_id r < next_id db"
    by (simp_all add: consistent_def list_all_iff)
  have "distinct (map row_id
          (map (\<lambda>r. if row_id r = i then r\<lparr>row_name := v\<rparr> else r) (table db)))"
    using d by (simp only: ids_update)
  moreover
  have "\<forall>r\<in>set (map (\<lambda>r. if row_id r = i then r\<lparr>row_name := v\<rparr> else r) (table db)).
          row_id r < next_id db"
    using b set_update_ids by fastforce
  ultimately show ?thesis using Update
    by (simp add: consistent_def Let_def list_all_iff)
next
  case (Delete i)
  with assms show ?thesis
    by (auto simp: consistent_def list_all_iff distinct_map_filter)
qed (use assms in \<open>auto simp: consistent_def\<close>)

lemma fresh_id: "consistent db \<Longrightarrow> next_id db \<notin> row_id ` set (table db)"
  by (auto simp: consistent_def list_all_iff)

lemma filter_sort_single:
  assumes "filter P t = [x]"
  shows "filter P (sort_key f t) = [x]"
proof -
  have "mset (filter P (sort_key f t)) = mset (filter P t)"
    by simp
  with assms have "mset (filter P (sort_key f t)) = {#x#}"
    by simp
  then show ?thesis
    by (simp only: mset_single_iff_right mset_single_iff)
qed

text \<open>
  C6. On a table whose keys are distinct and below the next key: a create with name X
  is answered with a record c of that name; the update of \<^verbatim>\<open>id\<close> c with name Y is
  answered with c under the new name; and the list that follows holds exactly one record
  with the \<^verbatim>\<open>id\<close> of c, whose name is Y and whose \<^verbatim>\<open>created_at\<close> is that of c.
\<close>

theorem create_update_list:
  assumes "consistent db" and "X \<noteq> []" and "Y \<noteq> []"
  shows "\<exists>c db1 db2 rs.
     run supabase (post_data \<lparr>params_id = p, body = Some (JObj [(''name'', JStr X)])\<rparr>) db =
       (\<lparr>code = 200, status = ''ok'', message = None, payload = Some (Item c)\<rparr>, db1) \<and>
     row_name c = JStr X \<and>
     run supabase (put_data \<lparr>params_id = row_id c, body = Some (JObj [(''name'', JStr Y)])\<rparr>) db1 =
       (\<lparr>code = 200, status = ''ok'', message = None,
          payload = Some (Item (c\<lparr>row_name := JStr Y\<rparr>))\<rparr>, db2) \<and>
     fst (run supabase get_data db2) =
       \<lparr>code = 200, status = ''ok'', message = None, payload = Some (Rows rs)\<rparr> \<and>
     filter (\<lambda>r. row_id r = row_id c) rs =
       [\<lparr>row_id = row_id c, row_name = JStr Y, created_at = created_at c\<rparr>]"
proof -
  define c where "c = \<lparr>row_id = next_id db, row_name = JStr X, created_at = clock db\<rparr>"
  define db1 where
    "db1 = db\<lparr>table := table db @ [c], next_id := next_id db + 1, clock := Suc (clock db)\<rparr>"
  define t2 where "t2 = table db @ [c\<lparr>row_name := JStr Y\<rparr>]"
  define db2 where "db2 = db1\<lparr>table := t2, clock := Suc (clock db1)\<rparr>"
  have fresh: "row_id c \<notin> row_id ` set (table db)"
    using assms(1) by (simp add: c_def fresh_id)
  have s1: "run supabase
              (post_data \<lparr>params_id = p, body = Some (JObj [(''name'', JStr X)])\<rparr>) db =
       (\<lparr>code = 200, status = ''ok'', message = None, payload = Some (Item c)\<rparr>, db1)"
    using assms(2)
    by (simp add: post_data_def run_Call answer_first_def ok_data_def Let_def c_def db1_def)
  have m: "map (\<lambda>r. if row_id r = row_id c then r\<lparr>row_name := JStr Y\<rparr> else r) (table db1) = t2"
    using fresh by (simp add: db1_def t2_def map_absent)
  have f: "filter (\<lambda>r. row_id r = row_id c) t2 = [c\<lparr>row_name := JStr Y\<rparr>]"
    using fresh by (simp add: t2_def filter_none)
  have s2: "run supabase
              (put_data \<lparr>params_id = row_id c, body = Some (JObj [(''name'', JStr Y)])\<rparr>) db1 =
       (\<lparr>code = 200, status = ''ok'', message = None,
          payload = Some (Item (c\<lparr>row_name := JStr Y\<rparr>))\<rparr>, db2)"
    using assms(3)
    by (simp add: put_data_def run_Call answer_first_def ok_data_def Let_def m f db2_def)
  have s3: "fst (run supabase get_data db2) =
       \<lparr>code = 200, status = ''ok'', message = None,
          payload = Some (Rows (sort_key row_id t2))\<rparr>"
    by (simp add: get_data_def run_Call ok_data_def db2_def)
  have s4: "filter (\<lambda>r. row_id r = row_id c) (sort_key row_id t2) =
       [\<lparr>row_id = row_id c, row_name = JStr Y, created_at = created_at c\<rparr>]"
    using filter_sort_single [OF f, of row_id] by (simp add: c_def)
  have "row_name c = JStr X" by (simp add: c_def)
  with s1 s2 s3 s4 show ?thesis by blast
qed

theorem create_update_list_witness:
  "consistent empty_database \<and> ''X'' \<noteq> [] \<and> ''Y'' \<noteq> [] \<and>
   (\<exists>c db1 db2 rs.
     run supabase (post_data \<lparr>params_id = 0, body = Some (JObj [(''name'', JStr ''X'')])\<rparr>)
       empty_database =
       (\<lparr>code = 200, status = ''ok'', message = None, payload = Some (Item c)\<rparr>, db1) \<and>
     row_name c = JStr ''X'' \<and>
     run supabase
       (put_data \<lparr>params_id = row_id c, body = Some (JObj [(''name'', JStr ''Y'')])\<rparr>) db1 =
       (\<lparr>code = 200, status = ''ok'', message = None,
          payload = Some (Item (c\<lparr>row_name := JStr ''Y''\<rparr>))\<rparr>, db2) \<and>
     fst (run supabase get_data db2) =
       \<lparr>code = 200, status = ''ok'', message = None, payload = Some (Rows rs)\<rparr> \<and>
     filter (\<lambda>r. row_id r = row_id c) rs =
       [\<lparr>row_id = row_id c, row_name = JStr ''Y'', created_at = created_at c\<rparr>])"
proof -
  have h1: "consistent empty_database" by (rule consistent_empty)
  have h2: "''X'' \<noteq> []" by simp
  have h3: "''Y'' \<noteq> []" by simp
  show ?thesis
    using h1 h2 h3 create_update_list [OF h1 h2 h3, of 0] by blast
qed

section \<open>The client's handlers\<close>


lemma fst_eq_pair: "fst p = a \<Longrightarrow> p = (a, snd p)"
  by (cases p) simp

lemma fetchData_trace:
  "take 2 (fst (fetchData server w)) = [SetDataLoading True, Api GET ApiData None] \<and>
   last (fst (fetchData server w)) = SetDataLoading False \<and>
   \<not> list_ex is_clear (fst (fetchData server w))"
  by (simp add: fetchData_def split: prod.splits outcome.splits)

lemma settle_Nil: "settle st [] = st"
  by (simp add: settle_def)

lemma settle_Cons: "settle st (e # es) = settle (apply_event e st) es"
  by (simp add: settle_def)

lemma settle_append: "settle st (xs @ ys) = settle (settle st xs) ys"
  by (simp add: settle_def)

lemma settle_fetchData:
  "newName (settle st (fst (fetchData server w))) = newName st \<and>
   showAddForm (settle st (fst (fetchData server w))) = showAddForm st \<and>
   editingId (settle st (fst (fetchData server w))) = editingId st \<and>
   editValue (settle st (fst (fetchData server w))) = editValue st"
  by (simp add: fetchData_def settle_def split: prod.splits outcome.splits)

lemma handleAdd_resolved:
  assumes "trim (newName st) \<noteq> []"
    and "api_fetch server POST ApiData (Some (JObj [(''name'', JStr (newName st))])) w =
           (Resolved r, w1)"
  shows "handleAdd server st w =
          ([SetActionLoading (Some Adding),
            Api POST ApiData (Some (JObj [(''name'', JStr (newName st))])),
            SetNewName [], SetShowAddForm False]
           @ fst (fetchData server w1) @ [SetActionLoading None], snd (fetchData server w1))"
  using assms by (simp add: handleAdd_def split: prod.splits)

lemma handleSave_resolved:
  assumes "trim (editValue st) \<noteq> []"
    and "api_fetch server PUT (ApiDataId i) (Some (JObj [(''name'', JStr (editValue st))])) w =
           (Resolved r, w1)"
  shows "handleSave server st i w =
          ([SetActionLoading (Some (OnRow i)),
            Api PUT (ApiDataId i) (Some (JObj [(''name'', JStr (editValue st))])),
            SetEditingId None, SetEditValue []]
           @ fst (fetchData server w1) @ [SetActionLoading None], snd (fetchData server w1))"
  using assms by (simp add: handleSave_def split: prod.splits)

lemma handleDelete_resolved:
  assumes "api_fetch server DELETE (ApiDataId j) None w = (Resolved r, w1)"
  shows "handleDelete server True j w =
          ([Confirm ''Are you sure you want to delete this item?'',
            SetActionLoading (Some (OnRow j)), Api DELETE (ApiDataId j) None]
           @ fst (fetchData server w1) @ [SetActionLoading None], snd (fetchData server w1))"
  using assms by (simp add: handleDelete_def split: prod.splits)

lemma backend_create:
  "s \<noteq> [] \<Longrightarrow>
   api_fetch backend POST ApiData (Some (JObj [(''name'', JStr s)])) db =
     (Resolved \<lparr>code = 200, status = ''ok'', message = None,
         payload = Some (Item \<lparr>row_id = next_id db, row_name = JStr s, created_at = clock db\<rparr>)\<rparr>,
      db\<lparr>table := table db @ [\<lparr>row_id = next_id db, row_name = JStr s, created_at = clock db\<rparr>],
         next_id := next_id db + 1, clock := Suc (clock db)\<rparr>)"
  by (simp add: api_fetch_def backend_def post_data_def run_Call answer_first_def ok_data_def
      Let_def)




section \<open>Order of mutation, clearing and reload\<close>

lemma handleAdd_clears:
  assumes "trim (newName sa) \<noteq> []"
    and "fst (api_fetch server POST ApiData (Some (JObj [(''name'', JStr (newName sa))])) wa) =
        Resolved r1"
  shows "fst (handleAdd server sa wa) =
        [SetActionLoading (Some Adding),
         Api POST ApiData (Some (JObj [(''name'', JStr (newName sa))])),
         SetNewName [], SetShowAddForm False]
        @ fst (fetchData server
                (snd (api_fetch server POST ApiData
                        (Some (JObj [(''name'', JStr (newName sa))])) wa)))
        @ [SetActionLoading None] \<and>
      newName (settle sa (fst (handleAdd server sa wa))) = [] \<and>
      showAddForm (settle sa (fst (handleAdd server sa wa))) = False"
proof -
  note a = handleAdd_resolved [OF assms(1) fst_eq_pair [OF assms(2)]]
  show ?thesis
    unfolding a fst_conv settle_append
    by (simp add: settle_fetchData settle_Nil settle_Cons)
qed

lemma handleSave_clears:
  assumes "trim (editValue ss) \<noteq> []"
    and "fst (api_fetch server PUT (ApiDataId i)
             (Some (JObj [(''name'', JStr (editValue ss))])) ws) =
        Resolved r2"
  shows "fst (handleSave server ss i ws) =
        [SetActionLoading (Some (OnRow i)),
         Api PUT (ApiDataId i) (Some (JObj [(''name'', JStr (editValue ss))])),
         SetEditingId None, SetEditValue []]
        @ fst (fetchData server
                (snd (api_fetch server PUT (ApiDataId i)
                        (Some (JObj [(''name'', JStr (editValue ss))])) ws)))
        @ [SetActionLoading None] \<and>
      editingId (settle ss (fst (handleSave server ss i ws))) = None \<and>
      editValue (settle ss (fst (handleSave server ss i ws))) = []"
proof -
  note a = handleSave_resolved [OF assms(1) fst_eq_pair [OF assms(2)]]
  show ?thesis
    unfolding a fst_conv settle_append
    by (simp add: settle_fetchData settle_Nil settle_Cons)
qed

lemma handleDelete_reloads:
  assumes "fst (api_fetch server DELETE (ApiDataId j) None wd) = Resolved r3"
  shows "fst (handleDelete server True j wd) =
        [Confirm ''Are you sure you want to delete this item?'',
         SetActionLoading (Some (OnRow j)), Api DELETE (ApiDataId j) None]
        @ fst (fetchData server (snd (api_fetch server DELETE (ApiDataId j) None wd)))
        @ [SetActionLoading None]"
  by (simp add: handleDelete_resolved [OF fst_eq_pair [OF assms]])

text \<open>
  C1, as the handlers have it. Each handler on its own: after a successful create
  request \<^verbatim>\<open>handleAdd\<close> clears the add form's text and visibility and then starts and
  awaits the reload; after a successful update request \<^verbatim>\<open>handleSave\<close> clears the
  edit-in-progress id and the edit text and then starts and awaits the reload; in both
  the state is cleared whether or not the reload succeeds. After a successful delete
  request \<^verbatim>\<open>handleDelete\<close> runs the reload only. The reload itself clears nothing.
\<close>

theorem mutate_clear_reload:
  "(trim (newName sa) \<noteq> [] \<and>
    fst (api_fetch server POST ApiData (Some (JObj [(''name'', JStr (newName sa))])) wa) =
        Resolved r1 \<longrightarrow>
      fst (handleAdd server sa wa) =
        [SetActionLoading (Some Adding),
         Api POST ApiData (Some (JObj [(''name'', JStr (newName sa))])),
         SetNewName [], SetShowAddForm False]
        @ fst (fetchData server
                (snd (api_fetch server POST ApiData
                        (Some (JObj [(''name'', JStr (newName sa))])) wa)))
        @ [SetActionLoading None] \<and>
      newName (settle sa (fst (handleAdd server sa wa))) = [] \<and>
      showAddForm (settle sa (fst (handleAdd server sa wa))) = False) \<and>
   (trim (editValue ss) \<noteq> [] \<and>
    fst (api_fetch server PUT (ApiDataId i)
             (Some (JObj [(''name'', JStr (editValue ss))])) ws) =
        Resolved r2 \<longrightarrow>
      fst (handleSave server ss i ws) =
        [SetActionLoading (Some (OnRow i)),
         Api PUT (ApiDataId i) (Some (JObj [(''name'', JStr (editValue ss))])),
         SetEditingId None, SetEditValue []]
        @ fst (fetchData server
                (snd (api_fetch server PUT (ApiDataId i)
                        (Some (JObj [(''name'', JStr (editValue ss))])) ws)))
        @ [SetActionLoading None] \<and>
      editingId (settle ss (fst (handleSave server ss i ws))) = None \<and>
      editValue (settle ss (fst (handleSave server ss i ws))) = []) \<and>
   (fst (api_fetch server DELETE (ApiDataId j) None wd) = Resolved r3 \<longrightarrow>
      fst (handleDelete server True j wd) =
        [Confirm ''Are you sure you want to delete this item?'',
         SetActionLoading (Some (OnRow j)), Api DELETE (ApiDataId j) None]
        @ fst (fetchData server (snd (api_fetch server DELETE (ApiDataId j) None wd)))
        @ [SetActionLoading None]) \<and>
   (\<forall>u. take 2 (fst (fetchData server u)) = [SetDataLoading True, Api GET ApiData None] \<and>
         last (fst (fetchData server u)) = SetDataLoading False \<and>
         \<not> list_ex is_clear (fst (fetchData server u)))"
proof (intro conjI)
  show "trim (newName sa) \<noteq> [] \<and>
    fst (api_fetch server POST ApiData (Some (JObj [(''name'', JStr (newName sa))])) wa) =
        Resolved r1 \<longrightarrow>
      fst (handleAdd server sa wa) =
        [SetActionLoading (Some Adding),
         Api POST ApiData (Some (JObj [(''name'', JStr (newName sa))])),
         SetNewName [], SetShowAddForm False]
        @ fst (fetchData server
                (snd (api_fetch server POST ApiData
                        (Some (JObj [(''name'', JStr (newName sa))])) wa)))
        @ [SetActionLoading None] \<and>
      newName (settle sa (fst (handleAdd server sa wa))) = [] \<and>
      showAddForm (settle sa (fst (handleAdd server sa wa))) = False"
    using handleAdd_clears [of sa server wa r1] by blast
  show "trim (editValue ss) \<noteq> [] \<and>
    fst (api_fetch server PUT (ApiDataId i)
             (Some (JObj [(''name'', JStr (editValue ss))])) ws) =
        Resolved r2 \<longrightarrow>
      fst (handleSave server ss i ws) =
        [SetActionLoading (Some (OnRow i)),
         Api PUT (ApiDataId i) (Some (JObj [(''name'', JStr (editValue ss))])),
         SetEditingId None, SetEditValue []]
        @ fst (fetchData server
                (snd (api_fetch server PUT (ApiDataId i)
                        (Some (JObj [(''name'', JStr (editValue ss))])) ws)))
        @ [SetActionLoading None] \<and>
      editingId (settle ss (fst (handleSave server ss i ws))) = None \<and>
      editValue (settle ss (fst (handleSave server ss i ws))) = []"
    using handleSave_clears [of ss server i ws r2] by blast
  show "fst (api_fetch server DELETE (ApiDataId j) None wd) = Resolved r3 \<longrightarrow>
      fst (handleDelete server True j wd) =
        [Confirm ''Are you sure you want to delete this item?'',
         SetActionLoading (Some (OnRow j)), Api DELETE (ApiDataId j) None]
        @ fst (fetchData server (snd (api_fetch server DELETE (ApiDataId j) None wd)))
        @ [SetActionLoading None]"
    using handleDelete_reloads [of server j wd r3] by blast
  show "\<forall>u. take 2 (fst (fetchData server u)) = [SetDataLoading True, Api GET ApiData None] \<and>
         last (fst (fetchData server u)) = SetDataLoading False \<and>
         \<not> list_ex is_clear (fst (fetchData server u))"
    by (rule allI) (rule fetchData_trace)
qed

theorem mutate_clear_reload_witness:
  "trim (newName 
     \<lparr>backendStatus = ''Backend and Supabase connected'', loading = False, data = Rows [],
      dataLoading = False, showData = False, editingId = None, editValue = [],
      showAddForm = True, newName = ''Widget'', actionLoading = None\<rparr>) \<noteq> [] \<and>
   fst (api_fetch backend POST ApiData (Some (JObj [(''name'', JStr (newName 
     \<lparr>backendStatus = ''Backend and Supabase connected'', loading = False, data = Rows [],
      dataLoading = False, showData = False, editingId = None, editValue = [],
      showAddForm = True, newName = ''Widget'', actionLoading = None\<rparr>))]))
         empty_database) =
     Resolved \<lparr>code = 200, status = ''ok'', message = None,
       payload = Some (Item \<lparr>row_id = 1, row_name = JStr ''Widget'', created_at = 0\<rparr>)\<rparr> \<and>
   trim (editValue 
     \<lparr>backendStatus = ''Backend and Supabase connected'', loading = False,
      data = Rows [\<lparr>row_id = 1, row_name = JStr ''Widget'', created_at = 0\<rparr>],
      dataLoading = False, showData = True, editingId = Some 1, editValue = ''Gadget'',
      showAddForm = False, newName = [], actionLoading = None\<rparr>) \<noteq> [] \<and>
   fst (api_fetch backend PUT (ApiDataId 1) (Some (JObj [(''name'', JStr (editValue 
     \<lparr>backendStatus = ''Backend and Supabase connected'', loading = False,
      data = Rows [\<lparr>row_id = 1, row_name = JStr ''Widget'', created_at = 0\<rparr>],
      dataLoading = False, showData = True, editingId = Some 1, editValue = ''Gadget'',
      showAddForm = False, newName = [], actionLoading = None\<rparr>))])) 
     \<lparr>table = [\<lparr>row_id = 1, row_name = JStr ''Widget'', created_at = 0\<rparr>],
      next_id = 2, clock = 1\<rparr>) =
     Resolved \<lparr>code = 200, status = ''ok'', message = None,
       payload = Some (Item \<lparr>row_id = 1, row_name = JStr ''Gadget'', created_at = 0\<rparr>)\<rparr> \<and>
   fst (api_fetch backend DELETE (ApiDataId 1) None 
     \<lparr>table = [\<lparr>row_id = 1, row_name = JStr ''Widget'', created_at = 0\<rparr>],
      next_id = 2, clock = 1\<rparr>) =
     Resolved \<lparr>code = 200, status = ''ok'', message = Some ''Deleted successfully'',
       payload = None\<rparr> \<and>
   take 4 (fst (handleAdd backend 
     \<lparr>backendStatus = ''Backend and Supabase connected'', loading = False, data = Rows [],
      dataLoading = False, showData = False, editingId = None, editValue = [],
      showAddForm = True, newName = ''Widget'', actionLoading = None\<rparr> empty_database)) =
     [SetActionLoading (Some Adding),
      Api POST ApiData (Some (JObj [(''name'', JStr ''Widget'')])),
      SetNewName [], SetShowAddForm False] \<and>
   newName (settle 
     \<lparr>backendStatus = ''Backend and Supabase connected'', loading = False, data = Rows [],
      dataLoading = False, showData = False, editingId = None, editValue = [],
      showAddForm = True, newName = ''Widget'', actionLoading = None\<rparr> (fst (handleAdd backend 
     \<lparr>backendStatus = ''Backend and Supabase connected'', loading = False, data = Rows [],
      dataLoading = False, showData = False, editingId = None, editValue = [],
      showAddForm = True, newName = ''Widget'', actionLoading = None\<rparr> empty_database))) = [] \<and>
   take 4 (fst (handleSave backend 
     \<lparr>backendStatus = ''Backend and Supabase connected'', loading = False,
      data = Rows [\<lparr>row_id = 1, row_name = JStr ''Widget'', created_at = 0\<rparr>],
      dataLoading = False, showData = True, editingId = Some 1, editValue = ''Gadget'',
      showAddForm = False, newName = [], actionLoading = None\<rparr> 1 
     \<lparr>table = [\<lparr>row_id = 1, row_name = JStr ''Widget'', created_at = 0\<rparr>],
      next_id = 2, clock = 1\<rparr>)) =
     [SetActionLoading (Some (OnRow 1)),
      Api PUT (ApiDataId 1) (Some (JObj [(''name'', JStr ''Gadget'')])),
      SetEditingId None, SetEditValue []] \<and>
   editingId (settle 
     \<lparr>backendStatus = ''Backend and Supabase connected'', loading = False,
      data = Rows [\<lparr>row_id = 1, row_name = JStr ''Widget'', created_at = 0\<rparr>],
      dataLoading = False, showData = True, editingId = Some 1, editValue = ''Gadget'',
      showAddForm = False, newName = [], actionLoading = None\<rparr> (fst (handleSave backend 
     \<lparr>backendStatus = ''Backend and Supabase connected'', loading = False,
      data = Rows [\<lparr>row_id = 1, row_name = JStr ''Widget'', created_at = 0\<rparr>],
      dataLoading = False, showData = True, editingId = Some 1, editValue = ''Gadget'',
      showAddForm = False, newName = [], actionLoading = None\<rparr> 1 
     \<lparr>table = [\<lparr>row_id = 1, row_name = JStr ''Widget'', created_at = 0\<rparr>],
      next_id = 2, clock = 1\<rparr>))) = None \<and>
   take 3 (fst (handleDelete backend True 1 
     \<lparr>table = [\<lparr>row_id = 1, row_name = JStr ''Widget'', created_at = 0\<rparr>],
      next_id = 2, clock = 1\<rparr>)) =
     [Confirm ''Are you sure you want to delete this item?'',
      SetActionLoading (Some (OnRow 1)), Api DELETE (ApiDataId 1) None]"
proof -
  have h1: "trim (newName 
     \<lparr>backendStatus = ''Backend and Supabase connected'', loading = False, data = Rows [],
      dataLoading = False, showData = False, editingId = None, editValue = [],
      showAddForm = True, newName = ''Widget'', actionLoading = None\<rparr>) \<noteq> []"
    by (simp add: trim_def white_space_def)
  have h2: "fst (api_fetch backend POST ApiData (Some (JObj [(''name'', JStr (newName 
     \<lparr>backendStatus = ''Backend and Supabase connected'', loading = False, data = Rows [],
      dataLoading = False, showData = False, editingId = None, editValue = [],
      showAddForm = True, newName = ''Widget'', actionLoading = None\<rparr>))]))
         empty_database) =
     Resolved \<lparr>code = 200, status = ''ok'', message = None,
       payload = Some (Item \<lparr>row_id = 1, row_name = JStr ''Widget'', created_at = 0\<rparr>)\<rparr>"
    by (simp add: backend_create empty_database_def)
  have h3: "trim (editValue 
     \<lparr>backendStatus = ''Backend and Supabase connected'', loading = False,
      data = Rows [\<lparr>row_id = 1, row_name = JStr ''Widget'', created_at = 0\<rparr>],
      dataLoading = False, showData = True, editingId = Some 1, editValue = ''Gadget'',
      showAddForm = False, newName = [], actionLoading = None\<rparr>) \<noteq> []"
    by (simp add: trim_def white_space_def)
  have h4: "fst (api_fetch backend PUT (ApiDataId 1) (Some (JObj [(''name'', JStr (editValue 
     \<lparr>backendStatus = ''Backend and Supabase connected'', loading = False,
      data = Rows [\<lparr>row_id = 1, row_name = JStr ''Widget'', created_at = 0\<rparr>],
      dataLoading = False, showData = True, editingId = Some 1, editValue = ''Gadget'',
      showAddForm = False, newName = [], actionLoading = None\<rparr>))])) 
     \<lparr>table = [\<lparr>row_id = 1, row_name = JStr ''Widget'', created_at = 0\<rparr>],
      next_id = 2, clock = 1\<rparr>) =
     Resolved \<lparr>code = 200, status = ''ok'', message = None,
       payload = Some (Item \<lparr>row_id = 1, row_name = JStr ''Gadget'', created_at = 0\<rparr>)\<rparr>"
    by (simp add: api_fetch_def backend_def put_data_def run_Call answer_first_def ok_data_def
        Let_def)
  have h5: "fst (api_fetch backend DELETE (ApiDataId 1) None 
     \<lparr>table = [\<lparr>row_id = 1, row_name = JStr ''Widget'', created_at = 0\<rparr>],
      next_id = 2, clock = 1\<rparr>) =
     Resolved \<lparr>code = 200, status = ''ok'', message = Some ''Deleted successfully'',
       payload = None\<rparr>"
    by (simp add: api_fetch_def backend_def delete_data_def run_Call ok_message_def)
  note t = mutate_clear_reload [where server = backend
      and sa = "
     \<lparr>backendStatus = ''Backend and Supabase connected'', loading = False, data = Rows [],
      dataLoading = False, showData = False, editingId = None, editValue = [],
      showAddForm = True, newName = ''Widget'', actionLoading = None\<rparr>"
      and wa = empty_database
      and ss = "
     \<lparr>backendStatus = ''Backend and Supabase connected'', loading = False,
      data = Rows [\<lparr>row_id = 1, row_name = JStr ''Widget'', created_at = 0\<rparr>],
      dataLoading = False, showData = True, editingId = Some 1, editValue = ''Gadget'',
      showAddForm = False, newName = [], actionLoading = None\<rparr>"
      and ws = "
     \<lparr>table = [\<lparr>row_id = 1, row_name = JStr ''Widget'', created_at = 0\<rparr>],
      next_id = 2, clock = 1\<rparr>"
      and wd = "
     \<lparr>table = [\<lparr>row_id = 1, row_name = JStr ''Widget'', created_at = 0\<rparr>],
      next_id = 2, clock = 1\<rparr>"
      and i = 1 and j = 1]
  have n: "newName 
     \<lparr>backendStatus = ''Backend and Supabase connected'', loading = False, data = Rows [],
      dataLoading = False, showData = False, editingId = None, editValue = [],
      showAddForm = True, newName = ''Widget'', actionLoading = None\<rparr> = ''Widget''" "editValue 
     \<lparr>backendStatus = ''Backend and Supabase connected'', loading = False,
      data = Rows [\<lparr>row_id = 1, row_name = JStr ''Widget'', created_at = 0\<rparr>],
      dataLoading = False, showData = True, editingId = Some 1, editValue = ''Gadget'',
      showAddForm = False, newName = [], actionLoading = None\<rparr> = ''Gadget''"
    by simp_all
  from t h1 h2 have ta: "fst (handleAdd backend 
     \<lparr>backendStatus = ''Backend and Supabase connected'', loading = False, data = Rows [],
      dataLoading = False, showData = False, editingId = None, editValue = [],
      showAddForm = True, newName = ''Widget'', actionLoading = None\<rparr> empty_database) =
        [SetActionLoading (Some Adding),
         Api POST ApiData (Some (JObj [(''name'', JStr (newName 
     \<lparr>backendStatus = ''Backend and Supabase connected'', loading = False, data = Rows [],
      dataLoading = False, showData = False, editingId = None, editValue = [],
      showAddForm = True, newName = ''Widget'', actionLoading = None\<rparr>))])),
         SetNewName [], SetShowAddForm False]
        @ fst (fetchData backend
                (snd (api_fetch backend POST ApiData
                        (Some (JObj [(''name'', JStr (newName 
     \<lparr>backendStatus = ''Backend and Supabase connected'', loading = False, data = Rows [],
      dataLoading = False, showData = False, editingId = None, editValue = [],
      showAddForm = True, newName = ''Widget'', actionLoading = None\<rparr>))])) empty_database)))
        @ [SetActionLoading None]"
    and c: "newName (settle 
     \<lparr>backendStatus = ''Backend and Supabase connected'', loading = False, data = Rows [],
      dataLoading = False, showData = False, editingId = None, editValue = [],
      showAddForm = True, newName = ''Widget'', actionLoading = None\<rparr> (fst (handleAdd backend 
     \<lparr>backendStatus = ''Backend and Supabase connected'', loading = False, data = Rows [],
      dataLoading = False, showData = False, editingId = None, editValue = [],
      showAddForm = True, newName = ''Widget'', actionLoading = None\<rparr> empty_database))) = []"
    by blast+
  from t h3 h4 have tb: "fst (handleSave backend 
     \<lparr>backendStatus = ''Backend and Supabase connected'', loading = False,
      data = Rows [\<lparr>row_id = 1, row_name = JStr ''Widget'', created_at = 0\<rparr>],
      dataLoading = False, showData = True, editingId = Some 1, editValue = ''Gadget'',
      showAddForm = False, newName = [], actionLoading = None\<rparr> 1 
     \<lparr>table = [\<lparr>row_id = 1, row_name = JStr ''Widget'', created_at = 0\<rparr>],
      next_id = 2, clock = 1\<rparr>) =
        [SetActionLoading (Some (OnRow 1)),
         Api PUT (ApiDataId 1) (Some (JObj [(''name'', JStr (editValue 
     \<lparr>backendStatus = ''Backend and Supabase connected'', loading = False,
      data = Rows [\<lparr>row_id = 1, row_name = JStr ''Widget'', created_at = 0\<rparr>],
      dataLoading = False, showData = True, editingId = Some 1, editValue = ''Gadget'',
      showAddForm = False, newName = [], actionLoading = None\<rparr>))])),
         SetEditingId None, SetEditValue []]
        @ fst (fetchData backend
                (snd (api_fetch backend PUT (ApiDataId 1)
                        (Some (JObj [(''name'', JStr (editValue 
     \<lparr>backendStatus = ''Backend and Supabase connected'', loading = False,
      data = Rows [\<lparr>row_id = 1, row_name = JStr ''Widget'', created_at = 0\<rparr>],
      dataLoading = False, showData = True, editingId = Some 1, editValue = ''Gadget'',
      showAddForm = False, newName = [], actionLoading = None\<rparr>))])) 
     \<lparr>table = [\<lparr>row_id = 1, row_name = JStr ''Widget'', created_at = 0\<rparr>],
      next_id = 2, clock = 1\<rparr>)))
        @ [SetActionLoading None]"
    and d: "editingId (settle 
     \<lparr>backendStatus = ''Backend and Supabase connected'', loading = False,
      data = Rows [\<lparr>row_id = 1, row_name = JStr ''Widget'', created_at = 0\<rparr>],
      dataLoading = False, showData = True, editingId = Some 1, editValue = ''Gadget'',
      showAddForm = False, newName = [], actionLoading = None\<rparr> (fst (handleSave backend 
     \<lparr>backendStatus = ''Backend and Supabase connected'', loading = False,
      data = Rows [\<lparr>row_id = 1, row_name = JStr ''Widget'', created_at = 0\<rparr>],
      dataLoading = False, showData = True, editingId = Some 1, editValue = ''Gadget'',
      showAddForm = False, newName = [], actionLoading = None\<rparr> 1 
     \<lparr>table = [\<lparr>row_id = 1, row_name = JStr ''Widget'', created_at = 0\<rparr>],
      next_id = 2, clock = 1\<rparr>))) = None"
    by blast+
  from t h5 have tc: "fst (handleDelete backend True 1 
     \<lparr>table = [\<lparr>row_id = 1, row_name = JStr ''Widget'', created_at = 0\<rparr>],
      next_id = 2, clock = 1\<rparr>) =
        [Confirm ''Are you sure you want to delete this item?'',
         SetActionLoading (Some (OnRow 1)), Api DELETE (ApiDataId 1) None]
        @ fst (fetchData backend (snd (api_fetch backend DELETE (ApiDataId 1) None 
     \<lparr>table = [\<lparr>row_id = 1, row_name = JStr ''Widget'', created_at = 0\<rparr>],
      next_id = 2, clock = 1\<rparr>)))
        @ [SetActionLoading None]"
    by blast
  have a: "take 4 (fst (handleAdd backend 
     \<lparr>backendStatus = ''Backend and Supabase connected'', loading = False, data = Rows [],
      dataLoading = False, showData = False, editingId = None, editValue = [],
      showAddForm = True, newName = ''Widget'', actionLoading = None\<rparr> empty_database)) =
     [SetActionLoading (Some Adding),
      Api POST ApiData (Some (JObj [(''name'', JStr ''Widget'')])),
      SetNewName [], SetShowAddForm False]"
    unfolding ta n by simp
  have b: "take 4 (fst (handleSave backend 
     \<lparr>backendStatus = ''Backend and Supabase connected'', loading = False,
      data = Rows [\<lparr>row_id = 1, row_name = JStr ''Widget'', created_at = 0\<rparr>],
      dataLoading = False, showData = True, editingId = Some 1, editValue = ''Gadget'',
      showAddForm = False, newName = [], actionLoading = None\<rparr> 1 
     \<lparr>table = [\<lparr>row_id = 1, row_name = JStr ''Widget'', created_at = 0\<rparr>],
      next_id = 2, clock = 1\<rparr>)) =
     [SetActionLoading (Some (OnRow 1)),
      Api PUT (ApiDataId 1) (Some (JObj [(''name'', JStr ''Gadget'')])),
      SetEditingId None, SetEditValue []]"
    unfolding tb n by simp
  have e: "take 3 (fst (handleDelete backend True 1 
     \<lparr>table = [\<lparr>row_id = 1, row_name = JStr ''Widget'', created_at = 0\<rparr>],
      next_id = 2, clock = 1\<rparr>)) =
     [Confirm ''Are you sure you want to delete this item?'',
      SetActionLoading (Some (OnRow 1)), Api DELETE (ApiDataId 1) None]"
    unfolding tc by simp
  from h1 h2 h3 h4 h5 a c b d e show ?thesis by (intro conjI)
qed

text \<open>
  C1, as the specification words it, fails: in the trace of a successful add the form's
  text and visibility are cleared third and fourth, before the reload is even requested,
  and so before it has finished.
\<close>

theorem clear_after_reload_counterexample:
  "fst (handleAdd backend
         \<lparr>backendStatus = ''Backend and Supabase connected'', loading = False, data = Rows [],
          dataLoading = False, showData = False, editingId = None, editValue = [],
          showAddForm = True, newName = ''Widget'', actionLoading = None\<rparr>
         empty_database) =
     [SetActionLoading (Some Adding),
      Api POST ApiData (Some (JObj [(''name'', JStr ''Widget'')])),
      SetNewName [], SetShowAddForm False,
      SetDataLoading True, Api GET ApiData None,
      SetData (Rows [\<lparr>row_id = 1, row_name = JStr ''Widget'', created_at = 0\<rparr>]),
      SetShowData True, SetDataLoading False,
      SetActionLoading None] \<and>
   \<not> clears_only_after_reload
       (fst (handleAdd backend
         \<lparr>backendStatus = ''Backend and Supabase connected'', loading = False, data = Rows [],
          dataLoading = False, showData = False, editingId = None, editValue = [],
          showAddForm = True, newName = ''Widget'', actionLoading = None\<rparr>
         empty_database))"
  by (simp add: handleAdd_def fetchData_def api_fetch_def backend_def post_data_def get_data_def
      run_Call answer_first_def ok_data_def Let_def trim_def white_space_def empty_database_def
      clears_only_after_reload_def reload_finished_def)

end
